theory Spec2Isabelle
  imports Complex_Main "HOL-Library.Log_Nat"
begin

section \<open>JavaScript numbers\<close>

text \<open>
  The viewer script \<^verbatim>\<open>src/index.js\<close> computes with JavaScript numbers, which are binary64
  floating-point numbers. A number is modelled as \<open>Num x\<close>, where the real \<open>x\<close> is the value
  of a finite binary64 number, or as one of the three special values. Every arithmetic
  operation computes the exact real result and rounds it to the nearest binary64 number,
  ties to even, as the standard prescribes; a result whose magnitude rounds to \<open>2 ^ 1024\<close>
  or more is an infinity. A division by zero is a value as well (JavaScript does not throw
  there), and not the \<open>x / 0 = 0\<close> of HOL. Zero carries no sign; it stands for \<open>+0\<close>, which
  is the only zero the script can divide by (its divisor is \<^verbatim>\<open>Math.max\<close> of three
  differences \<open>max - min\<close>, or of three literal zeros).
\<close>

datatype number = Num real | PInf | NInf | NaN

text \<open>The sign of an infinite result: \<open>pos\<close> tells whether it is positive.\<close>

definition inf_of :: "bool \<Rightarrow> number" where
  "inf_of pos = (if pos then PInf else NInf)"

text \<open>The power of two with an integer exponent of either sign.\<close>

definition pow2 :: "int \<Rightarrow> real" where
  "pow2 e = (if 0 \<le> e then 2 ^ nat e else 1 / 2 ^ nat (- e))"

text \<open>The nearest integer, the even one of two that are equally near.\<close>

definition rne :: "real \<Rightarrow> int" where
  "rne x =
     (let n = \<lfloor>x\<rfloor>; r = x - of_int n
      in if r < 1 / 2 then n
         else if 1 / 2 < r then n + 1
         else if even n then n else n + 1)"

text \<open>
  The binary exponent of a real \<open>x\<close> other than zero, that is the \<open>e\<close> with
  \<open>pow2 e \<le> \<bar>x\<bar> < pow2 (e + 1)\<close>, read off the bit length of the integer part of \<open>\<bar>x\<bar>\<close>, or
  of \<open>1 / \<bar>x\<bar>\<close> when \<open>\<bar>x\<bar> < 1\<close>.
\<close>

definition exponent :: "real \<Rightarrow> int" where
  "exponent x =
     (if 1 \<le> \<bar>x\<bar> then bitlen \<lfloor>\<bar>x\<bar>\<rfloor> - 1
      else - bitlen (\<lceil>1 / \<bar>x\<bar>\<rceil> - 1))"

text \<open>
  A binary64 number has 53 significant bits, and exponents from \<open>-1022\<close> (below which the
  numbers are subnormal and equally spaced) to \<open>1023\<close>. So the binary64 numbers around \<open>x\<close>
  are the integer multiples of \<open>pow2 (ulp_exp x)\<close>, and \<open>fl x\<close> is the nearest of them.
\<close>

definition ulp_exp :: "real \<Rightarrow> int" where
  "ulp_exp x = max (exponent x) (- 1022) - 52"

definition fl :: "real \<Rightarrow> real" where
  "fl x = of_int (rne (x / pow2 (ulp_exp x))) * pow2 (ulp_exp x)"

definition round64 :: "real \<Rightarrow> number" where
  "round64 x = (if pow2 1024 \<le> \<bar>fl x\<bar> then inf_of (0 < x) else Num (fl x))"

fun js_neg :: "number \<Rightarrow> number" where
  "js_neg (Num a) = Num (- a)"
| "js_neg PInf = NInf"
| "js_neg NInf = PInf"
| "js_neg NaN = NaN"

fun js_add :: "number \<Rightarrow> number \<Rightarrow> number" where
  "js_add (Num a) (Num b) = round64 (a + b)"
| "js_add NaN _ = NaN"
| "js_add _ NaN = NaN"
| "js_add PInf NInf = NaN"
| "js_add NInf PInf = NaN"
| "js_add PInf _ = PInf"
| "js_add NInf _ = NInf"
| "js_add (Num a) PInf = PInf"
| "js_add (Num a) NInf = NInf"

definition js_sub :: "number \<Rightarrow> number \<Rightarrow> number" where
  "js_sub a b = js_add a (js_neg b)"

fun js_mul :: "number \<Rightarrow> number \<Rightarrow> number" where
  "js_mul (Num a) (Num b) = round64 (a * b)"
| "js_mul NaN _ = NaN"
| "js_mul _ NaN = NaN"
| "js_mul PInf (Num b) = (if b = 0 then NaN else inf_of (0 < b))"
| "js_mul NInf (Num b) = (if b = 0 then NaN else inf_of (b < 0))"
| "js_mul (Num a) PInf = (if a = 0 then NaN else inf_of (0 < a))"
| "js_mul (Num a) NInf = (if a = 0 then NaN else inf_of (a < 0))"
| "js_mul PInf PInf = PInf"
| "js_mul PInf NInf = NInf"
| "js_mul NInf PInf = NInf"
| "js_mul NInf NInf = PInf"

fun js_div :: "number \<Rightarrow> number \<Rightarrow> number" where
  "js_div (Num a) (Num b) =
     (if b = 0 then (if a = 0 then NaN else inf_of (0 < a)) else round64 (a / b))"
| "js_div NaN _ = NaN"
| "js_div _ NaN = NaN"
| "js_div (Num a) PInf = Num 0"
| "js_div (Num a) NInf = Num 0"
| "js_div PInf (Num b) = inf_of (0 \<le> b)"
| "js_div NInf (Num b) = inf_of (b < 0)"
| "js_div PInf PInf = NaN"
| "js_div PInf NInf = NaN"
| "js_div NInf PInf = NaN"
| "js_div NInf NInf = NaN"

text \<open>The comparison \<^verbatim>\<open><\<close>: false as soon as one side is \<^verbatim>\<open>NaN\<close>.\<close>

fun js_lt :: "number \<Rightarrow> number \<Rightarrow> bool" where
  "js_lt (Num a) (Num b) = (a < b)"
| "js_lt NaN _ = False"
| "js_lt _ NaN = False"
| "js_lt _ NInf = False"
| "js_lt PInf _ = False"
| "js_lt NInf _ = True"
| "js_lt (Num a) PInf = True"

text \<open>\<^verbatim>\<open>Math.max\<close> and \<^verbatim>\<open>Math.min\<close> of two numbers: \<^verbatim>\<open>NaN\<close> as soon as one is.\<close>

fun js_max :: "number \<Rightarrow> number \<Rightarrow> number" where
  "js_max NaN _ = NaN"
| "js_max _ NaN = NaN"
| "js_max a b = (if js_lt a b then b else a)"

fun js_min :: "number \<Rightarrow> number \<Rightarrow> number" where
  "js_min NaN _ = NaN"
| "js_min _ NaN = NaN"
| "js_min a b = (if js_lt b a then b else a)"

text \<open>\<^verbatim>\<open>Math.max(a, b, c)\<close>.\<close>

definition Math_max :: "number \<Rightarrow> number \<Rightarrow> number \<Rightarrow> number" where
  "Math_max a b c = js_max (js_max a b) c"

fun isFinite :: "number \<Rightarrow> bool" where
  "isFinite (Num a) = True"
| "isFinite _ = False"

section \<open>Vectors and boxes of the rendering library\<close>

text \<open>
  \<^verbatim>\<open>THREE.Vector3\<close> and \<^verbatim>\<open>THREE.Box3\<close> belong to the rendering library, not to the
  script. The few methods the script calls are written out here as the library documents
  them: \<^verbatim>\<open>sub\<close>, \<^verbatim>\<open>multiply\<close>, \<^verbatim>\<open>setY\<close> and \<^verbatim>\<open>setScalar\<close> on a vector, \<^verbatim>\<open>isEmpty\<close>,
  \<^verbatim>\<open>getSize\<close> and \<^verbatim>\<open>getCenter\<close> on a box (the last two answer the zero vector on an
  empty box).
\<close>

record vector3 =
  vx :: number
  vy :: number
  vz :: number

definition Vector3 :: "number \<Rightarrow> number \<Rightarrow> number \<Rightarrow> vector3" where
  "Vector3 a b c = \<lparr>vx = a, vy = b, vz = c\<rparr>"

definition sub :: "vector3 \<Rightarrow> vector3 \<Rightarrow> vector3" where
  "sub p v = \<lparr>vx = js_sub (vx p) (vx v), vy = js_sub (vy p) (vy v), vz = js_sub (vz p) (vz v)\<rparr>"


definition setY :: "number \<Rightarrow> vector3 \<Rightarrow> vector3" where
  "setY a p = p\<lparr>vy := a\<rparr>"

definition setScalar :: "number \<Rightarrow> vector3" where
  "setScalar s = \<lparr>vx = s, vy = s, vz = s\<rparr>"

record box3 =
  box_min :: vector3
  box_max :: vector3

definition isEmpty :: "box3 \<Rightarrow> bool" where
  "isEmpty b \<longleftrightarrow>
     js_lt (vx (box_max b)) (vx (box_min b)) \<or>
     js_lt (vy (box_max b)) (vy (box_min b)) \<or>
     js_lt (vz (box_max b)) (vz (box_min b))"

definition getSize :: "box3 \<Rightarrow> vector3" where
  "getSize b =
     (if isEmpty b then Vector3 (Num 0) (Num 0) (Num 0)
      else sub (box_max b) (box_min b))"

definition getCenter :: "box3 \<Rightarrow> vector3" where
  "getCenter b =
     (if isEmpty b then Vector3 (Num 0) (Num 0) (Num 0)
      else \<lparr>vx = js_mul (js_add (vx (box_min b)) (vx (box_max b))) (Num (1/2)),
            vy = js_mul (js_add (vy (box_min b)) (vy (box_max b))) (Num (1/2)),
            vz = js_mul (js_add (vz (box_min b)) (vz (box_max b))) (Num (1/2))\<rparr>)"

section \<open>The objects of the scene\<close>

text \<open>
  The tone-mapping constants of the library that the drop-down of the control panel offers,
  and the lookup \<^verbatim>\<open>THREE[name]\<close>. A name that is none of the five answers
  \<^verbatim>\<open>undefined\<close>, which is \<open>None\<close> here.
\<close>

datatype tone_mapping =
  NoToneMapping | LinearToneMapping | ReinhardToneMapping | CineonToneMapping
  | ACESFilmicToneMapping

definition THREE :: "string \<Rightarrow> tone_mapping option" where
  "THREE name =
     (if name = ''NoToneMapping'' then Some NoToneMapping
      else if name = ''LinearToneMapping'' then Some LinearToneMapping
      else if name = ''ReinhardToneMapping'' then Some ReinhardToneMapping
      else if name = ''CineonToneMapping'' then Some CineonToneMapping
      else if name = ''ACESFilmicToneMapping'' then Some ACESFilmicToneMapping
      else None)"

text \<open>
  A material as the script sees it. \<open>toneMapping\<close> and \<open>toneMappingExposure\<close> are not
  properties the loader gives a material: they are \<^verbatim>\<open>undefined\<close> (\<open>None\<close>) until the
  script writes them. \<^verbatim>\<open>needsUpdate\<close> is not a stored property either: the library
  defines it as a setter, and assigning \<^verbatim>\<open>true\<close> to it increments the counter
  \<open>version\<close> of the material, by which the renderer learns that the material is dirty.
  The counter is a natural number here; the script cannot reach the point where a
  JavaScript number stops growing.
\<close>

record material =
  metalness :: number
  roughness :: number
  toneMapping :: "tone_mapping option"
  toneMappingExposure :: "number option"
  version :: nat

text \<open>The setter behind the assignment \<^verbatim>\<open>material.needsUpdate = b\<close>.\<close>

definition set_needsUpdate :: "bool \<Rightarrow> material \<Rightarrow> material" where
  "set_needsUpdate b m = (if b then m\<lparr>version := Suc (version m)\<rparr> else m)"

record mesh =
  material :: material
  castShadow :: bool
  receiveShadow :: bool

text \<open>
  A node of the loaded model: a mesh (\<^verbatim>\<open>child.isMesh\<close>, with its one material) or a
  plain group, and its children. Each mesh carries its material by value: every callback
  writes the same values to the material of every mesh, so two meshes that share one
  material object end in the same state as two meshes with equal materials.
\<close>

datatype object3d = Object3D "mesh option" "object3d list"

text \<open>\<^verbatim>\<open>traverse(callback)\<close>: the callback on the node itself, then on every descendant.\<close>

fun traverse :: "(mesh option \<Rightarrow> mesh option) \<Rightarrow> object3d \<Rightarrow> object3d" where
  "traverse f (Object3D child cs) = Object3D (f child) (map (traverse f) cs)"

text \<open>The materials of all meshes of a node, in traversal order.\<close>

fun materials :: "object3d \<Rightarrow> material list" where
  "materials (Object3D child cs) =
     (case child of None \<Rightarrow> [] | Some m \<Rightarrow> [material m]) @ concat (map materials cs)"

text \<open>
  The root of the model (\<^verbatim>\<open>gltf.scene\<close>, the script's \<^verbatim>\<open>rubberDuck\<close>) with the
  transform the script writes: position, scale and the rotation about the up-axis.
\<close>

record model =
  position :: vector3
  scale :: vector3
  rotation_y :: number
  root :: object3d

text \<open>
  What the model loader delivers: the root, and \<open>bounds\<close>, the box that
  \<^verbatim>\<open>new THREE.Box3().setFromObject(gltf.scene)\<close> evaluates to on it (a library
  computation over the geometry, taken as given).
\<close>

record gltf =
  gltf_scene :: model
  bounds :: box3

datatype mapping_mode = UVMapping | EquirectangularReflectionMapping

record texture =
  texture_mapping :: mapping_mode
  texture_intensity :: "number option"

datatype light_kind = AmbientLight | DirectionalLight | PointLight

record light =
  light_kind :: light_kind
  light_color :: nat
  light_intensity :: number
  light_distance :: number
  light_position :: vector3
  light_castShadow :: bool

text \<open>
  The scene holds references: its background and its environment are the same texture
  object \<^verbatim>\<open>hdr\<close>, and its children are the objects the script keeps in variables.
\<close>

datatype texture_ref = HdrRef

datatype object_ref = AmbientLightRef | DirectionalLightRef | RubberDuckRef | Light1Ref

record scene =
  background :: "texture_ref option"
  environment :: "texture_ref option"
  scene_children :: "object_ref list"

record renderer =
  renderer_toneMapping :: "tone_mapping option"
  renderer_toneMappingExposure :: number

text \<open>The parameters the script hangs off \<^verbatim>\<open>window\<close>.\<close>

record window =
  window_envMapIntensity :: number
  window_lightIntensity :: number
  window_lightX :: number
  window_lightY :: number
  window_lightZ :: number
  window_rotation :: number
  window_defaultMetalness :: number
  window_defaultRoughness :: number
  window_metalness :: number
  window_roughness :: number
  window_toneMapping :: string
  window_toneMappingExposure :: number

datatype log_entry = ConsoleLog string | ConsoleError string string

text \<open>
  The state of the page. \<open>hdr\<close>, \<open>rubberDuck\<close> and \<open>light1\<close> are the objects behind the
  references, absent until their load callback has run. \<open>env_pending\<close> and
  \<open>model_pending\<close> tell which of the two loads has not completed yet.
\<close>

record state =
  window :: window
  renderer :: renderer
  scene :: scene
  ambientLight :: light
  directionalLight :: light
  hdr :: "texture option"
  rubberDuck :: "model option"
  light1 :: "light option"
  camera_position :: vector3
  controls_target :: vector3
  console :: "log_entry list"
  env_pending :: bool
  model_pending :: bool

text \<open>
  The state when the top level of the script has run (lines 8 to 28 and 160 to 201): both
  loads are started and pending, the two static lights are in the scene, the parameters
  have their defaults. No callback runs before that point. The decimal literals \<^verbatim>\<open>2.257\<close>,
  \<^verbatim>\<open>0.3\<close> and \<^verbatim>\<open>0.8\<close> denote the binary64 numbers nearest to them; the other
  literals are binary64 numbers as they stand.
\<close>

definition init_state :: state where
  "init_state =
     \<lparr>window =
        \<lparr>window_envMapIntensity = round64 (2257 / 1000),
         window_lightIntensity = Num 3,
         window_lightX = Num (1 / 4),
         window_lightY = Num 3,
         window_lightZ = Num (- (9 / 4)),
         window_rotation = Num 0,
         window_defaultMetalness = round64 (3 / 10),
         window_defaultRoughness = round64 (8 / 10),
         window_metalness = round64 (3 / 10),
         window_roughness = round64 (8 / 10),
         window_toneMapping = ''CineonToneMapping'',
         window_toneMappingExposure = Num (1 / 2)\<rparr>,
      renderer =
        \<lparr>renderer_toneMapping = Some CineonToneMapping,
         renderer_toneMappingExposure = Num (1 / 2)\<rparr>,
      scene =
        \<lparr>background = None, environment = None,
         scene_children = [AmbientLightRef, DirectionalLightRef]\<rparr>,
      ambientLight =
        \<lparr>light_kind = AmbientLight, light_color = 16777215, light_intensity = Num (1 / 2),
         light_distance = Num 0,
         light_position = Vector3 (Num 0) (Num 0) (Num 0), light_castShadow = False\<rparr>,
      directionalLight =
        \<lparr>light_kind = DirectionalLight, light_color = 16777215, light_intensity = Num 1,
         light_distance = Num 0,
         light_position = Vector3 (Num 5) (Num 10) (Num (15 / 2)), light_castShadow = True\<rparr>,
      hdr = None,
      rubberDuck = None,
      light1 = None,
      camera_position = Vector3 (Num 0) (Num 0) (Num 5),
      controls_target = Vector3 (Num 0) (Num 0) (Num 0),
      console = [],
      env_pending = True,
      model_pending = True\<rparr>"

section \<open>The load callbacks\<close>

text \<open>
  The environment callback (lines 31 to 35). The loader call names no error callback, so
  a failed environment load runs no code of the script.
\<close>

definition hdr_onLoad :: "texture \<Rightarrow> state \<Rightarrow> state" where
  "hdr_onLoad t s =
     s\<lparr>hdr := Some (t\<lparr>texture_mapping := EquirectangularReflectionMapping\<rparr>),
       scene := (scene s)\<lparr>background := Some HdrRef, environment := Some HdrRef\<rparr>\<rparr>"

text \<open>Lines 46 to 49: the local constants \<^verbatim>\<open>maxDimension\<close> and \<^verbatim>\<open>scaleFactor\<close>.\<close>

definition maxDimension :: "box3 \<Rightarrow> number" where
  "maxDimension box =
     (let size = getSize box in Math_max (vx size) (vy size) (vz size))"

definition scaleFactor :: "box3 \<Rightarrow> number" where
  "scaleFactor box = js_div (Num 5) (maxDimension box)"

text \<open>Lines 50 to 55: the scale and the position written to the root of the model.\<close>

definition normalize :: "box3 \<Rightarrow> model \<Rightarrow> model" where
  "normalize box d =
     (let d1 = d\<lparr>scale := setScalar (scaleFactor box)\<rparr>;
          center = getCenter box;
          d2 = d1\<lparr>position := sub (position d1) center\<rparr>
      in d2\<lparr>position :=
              setY (js_mul (js_neg (vy (box_min box))) (scaleFactor box)) (position d2)\<rparr>)"

text \<open>Lines 58 to 66: the material pass of the load callback.\<close>

definition load_pass :: "window \<Rightarrow> mesh option \<Rightarrow> mesh option" where
  "load_pass w child =
     (case child of
        None \<Rightarrow> None
      | Some m \<Rightarrow>
          Some (m\<lparr>material :=
                     set_needsUpdate True
                       ((material m)\<lparr>metalness := window_defaultMetalness w,
                                    roughness := window_defaultRoughness w\<rparr>),
                   castShadow := True,
                   receiveShadow := True\<rparr>))"

text \<open>
  The model callback (lines 41 to 155). The control panel it builds is not a value of the
  state: its bindings exist exactly when \<open>rubberDuck\<close> does.
\<close>

definition gltf_onLoad :: "gltf \<Rightarrow> state \<Rightarrow> state" where
  "gltf_onLoad g s =
     (let w = window s;
          d = normalize (bounds g) (gltf_scene g);
          d' = d\<lparr>root := traverse (load_pass w) (root d)\<rparr>;
          l = \<lparr>light_kind = PointLight, light_color = 16777215,
               light_intensity = window_lightIntensity w,
               light_distance = Num 50,
               light_position = Vector3 (window_lightX w) (window_lightY w) (window_lightZ w),
               light_castShadow = False\<rparr>
      in s\<lparr>console := console s @ [ConsoleLog ''Rubber Duck loaded''],
           rubberDuck := Some d',
           light1 := Some l,
           scene := (scene s)\<lparr>scene_children :=
                                scene_children (scene s) @ [RubberDuckRef, Light1Ref]\<rparr>,
           controls_target := position d',
           camera_position :=
             Vector3 (vx (position d'))
                     (js_add (vy (position d')) (Num 2))
                     (js_add (vz (position d')) (Num 10))\<rparr>)"

text \<open>The error callback of the model load (line 157).\<close>

definition gltf_onError :: "string \<Rightarrow> state \<Rightarrow> state" where
  "gltf_onError err s =
     s\<lparr>console := console s @ [ConsoleError ''Error loading Rubber Duck:'' err]\<rparr>"

section \<open>The bindings of the control panel\<close>

text \<open>
  A callback returns, or it throws and leaves the state it had reached.
\<close>

datatype error = TypeError

datatype outcome = Returned state | Threw error state

fun state_of :: "outcome \<Rightarrow> state" where
  "state_of (Returned s) = s"
| "state_of (Threw e s) = s"

fun has_thrown :: "outcome \<Rightarrow> bool" where
  "has_thrown (Returned s) = False"
| "has_thrown (Threw e s) = True"

text \<open>The writes of one callback to a mesh, each guarded by \<^verbatim>\<open>child.isMesh\<close>.\<close>

definition on_material :: "(material \<Rightarrow> material) \<Rightarrow> mesh option \<Rightarrow> mesh option" where
  "on_material f child =
     (case child of None \<Rightarrow> None | Some m \<Rightarrow> Some (m\<lparr>material := f (material m)\<rparr>))"

definition traverse_duck :: "(mesh option \<Rightarrow> mesh option) \<Rightarrow> state \<Rightarrow> state" where
  "traverse_duck f s =
     s\<lparr>rubberDuck :=
         (case rubberDuck s of None \<Rightarrow> None | Some d \<Rightarrow> Some (d\<lparr>root := traverse f (root d)\<rparr>))\<rparr>"

text \<open>Lines 76 to 83.\<close>

definition metalness_onChange :: "state \<Rightarrow> outcome" where
  "metalness_onChange s =
     Returned (traverse_duck
       (on_material
          (\<lambda>m. set_needsUpdate True (m\<lparr>metalness := window_metalness (window s)\<rparr>))) s)"

text \<open>Lines 84 to 91.\<close>

definition roughness_onChange :: "state \<Rightarrow> outcome" where
  "roughness_onChange s =
     Returned (traverse_duck
       (on_material
          (\<lambda>m. set_needsUpdate True (m\<lparr>roughness := window_roughness (window s)\<rparr>))) s)"

text \<open>Lines 101 to 112.\<close>

definition toneMapping_onChange :: "state \<Rightarrow> outcome" where
  "toneMapping_onChange s =
     (let toneMappingValue = THREE (window_toneMapping (window s));
          s1 = s\<lparr>renderer :=
                   (renderer s)\<lparr>renderer_toneMapping := toneMappingValue,
                                renderer_toneMappingExposure :=
                                  window_toneMappingExposure (window s)\<rparr>\<rparr>
      in Returned (traverse_duck
           (on_material
              (\<lambda>m. set_needsUpdate True
                     (m\<lparr>toneMapping := toneMappingValue,
                        toneMappingExposure :=
                          Some (window_toneMappingExposure (window s))\<rparr>))) s1))"

text \<open>Lines 113 to 117.\<close>

definition toneMappingExposure_onChange :: "state \<Rightarrow> outcome" where
  "toneMappingExposure_onChange s =
     Returned (s\<lparr>renderer :=
                  (renderer s)\<lparr>renderer_toneMappingExposure :=
                                 window_toneMappingExposure (window s)\<rparr>\<rparr>)"

text \<open>
  Lines 140 to 142. \<^verbatim>\<open>scene.environment\<close> is \<^verbatim>\<open>null\<close> until the environment callback
  has run, and a property write on \<^verbatim>\<open>null\<close> throws a \<^verbatim>\<open>TypeError\<close>. Otherwise the
  write goes to the texture object the reference names.
\<close>

definition updateEnvironment :: "state \<Rightarrow> outcome" where
  "updateEnvironment s =
     (case environment (scene s) of
        None \<Rightarrow> Threw TypeError s
      | Some HdrRef \<Rightarrow>
          Returned (s\<lparr>hdr :=
            (case hdr s of
               None \<Rightarrow> None
             | Some t \<Rightarrow>
                 Some (t\<lparr>texture_intensity := Some (window_envMapIntensity (window s))\<rparr>))\<rparr>))"

text \<open>Lines 145 to 148.\<close>

definition updateLights :: "state \<Rightarrow> outcome" where
  "updateLights s =
     Returned (s\<lparr>light1 :=
       (case light1 s of
          None \<Rightarrow> None
        | Some l \<Rightarrow>
            Some (l\<lparr>light_intensity := window_lightIntensity (window s),
                    light_position :=
                      Vector3 (window_lightX (window s)) (window_lightY (window s))
                              (window_lightZ (window s))\<rparr>))\<rparr>)"

text \<open>Lines 126 to 128.\<close>

definition rotation_onChange :: "state \<Rightarrow> outcome" where
  "rotation_onChange s =
     Returned (s\<lparr>rubberDuck :=
       (case rubberDuck s of
          None \<Rightarrow> None
        | Some d \<Rightarrow> Some (d\<lparr>rotation_y := window_rotation (window s)\<rparr>))\<rparr>)"

text \<open>
  A change made in the control panel: the controller first stores the new value (for a
  slider, the value it has clamped to its range) in the bound property of \<^verbatim>\<open>window\<close>,
  then calls the callback registered with \<^verbatim>\<open>onChange\<close>.
\<close>

datatype change =
  SetMetalness number
  | SetRoughness number
  | SetToneMapping string
  | SetToneMappingExposure number
  | SetEnvMapIntensity number
  | SetLightIntensity number
  | SetLightX number
  | SetLightY number
  | SetLightZ number
  | SetRotation number

fun store :: "change \<Rightarrow> window \<Rightarrow> window" where
  "store (SetMetalness v) w = w\<lparr>window_metalness := v\<rparr>"
| "store (SetRoughness v) w = w\<lparr>window_roughness := v\<rparr>"
| "store (SetToneMapping n) w = w\<lparr>window_toneMapping := n\<rparr>"
| "store (SetToneMappingExposure v) w = w\<lparr>window_toneMappingExposure := v\<rparr>"
| "store (SetEnvMapIntensity v) w = w\<lparr>window_envMapIntensity := v\<rparr>"
| "store (SetLightIntensity v) w = w\<lparr>window_lightIntensity := v\<rparr>"
| "store (SetLightX v) w = w\<lparr>window_lightX := v\<rparr>"
| "store (SetLightY v) w = w\<lparr>window_lightY := v\<rparr>"
| "store (SetLightZ v) w = w\<lparr>window_lightZ := v\<rparr>"
| "store (SetRotation v) w = w\<lparr>window_rotation := v\<rparr>"

fun onChange :: "change \<Rightarrow> state \<Rightarrow> outcome" where
  "onChange (SetMetalness v) = metalness_onChange"
| "onChange (SetRoughness v) = roughness_onChange"
| "onChange (SetToneMapping n) = toneMapping_onChange"
| "onChange (SetToneMappingExposure v) = toneMappingExposure_onChange"
| "onChange (SetEnvMapIntensity v) = updateEnvironment"
| "onChange (SetLightIntensity v) = updateLights"
| "onChange (SetLightX v) = updateLights"
| "onChange (SetLightY v) = updateLights"
| "onChange (SetLightZ v) = updateLights"
| "onChange (SetRotation v) = rotation_onChange"

definition setValue :: "change \<Rightarrow> state \<Rightarrow> outcome" where
  "setValue c s = onChange c (s\<lparr>window := store c (window s)\<rparr>)"

section \<open>Events\<close>

text \<open>
  What can happen after the top level has run: each load completes once, with a result or
  with an error, in either order; the control panel, once the model callback has built it,
  reports changes. An exception a binding throws is not caught by the script; the page goes
  on from the state reached.
\<close>

datatype event =
  EnvLoaded texture
  | EnvFailed string
  | ModelLoaded gltf
  | ModelFailed string
  | Changed change

fun step :: "event \<Rightarrow> state \<Rightarrow> state" where
  "step (EnvLoaded t) s =
     (if env_pending s then hdr_onLoad t (s\<lparr>env_pending := False\<rparr>) else s)"
| "step (EnvFailed err) s =
     (if env_pending s then s\<lparr>env_pending := False\<rparr> else s)"
| "step (ModelLoaded g) s =
     (if model_pending s then gltf_onLoad g (s\<lparr>model_pending := False\<rparr>) else s)"
| "step (ModelFailed err) s =
     (if model_pending s then gltf_onError err (s\<lparr>model_pending := False\<rparr>) else s)"
| "step (Changed c) s =
     (if rubberDuck s = None then s else state_of (setValue c s))"

fun run :: "event list \<Rightarrow> state \<Rightarrow> state" where
  "run [] s = s"
| "run (e # es) s = run es (step e s)"

section \<open>What the claims observe\<close>

text \<open>The materials of all meshes of the loaded model (none before the load).\<close>

definition mesh_materials :: "state \<Rightarrow> material list" where
  "mesh_materials s = (case rubberDuck s of None \<Rightarrow> [] | Some d \<Rightarrow> materials (root d))"

text \<open>
  The box of the model in the scene: \<open>box\<close> is the box of the geometry in the frame of the
  root, and the root scales each axis and then translates. A negative scale swaps the two
  ends of an axis, hence the minimum and maximum.
\<close>

definition worldBox :: "model \<Rightarrow> box3 \<Rightarrow> box3" where
  "worldBox d box =
     (let lo = box_min box; hi = box_max box; p = position d; k = scale d in
      \<lparr>box_min =
         \<lparr>vx = js_add (vx p) (js_min (js_mul (vx k) (vx lo)) (js_mul (vx k) (vx hi))),
          vy = js_add (vy p) (js_min (js_mul (vy k) (vy lo)) (js_mul (vy k) (vy hi))),
          vz = js_add (vz p) (js_min (js_mul (vz k) (vz lo)) (js_mul (vz k) (vz hi)))\<rparr>,
       box_max =
         \<lparr>vx = js_add (vx p) (js_max (js_mul (vx k) (vx lo)) (js_mul (vx k) (vx hi))),
          vy = js_add (vy p) (js_max (js_mul (vy k) (vy lo)) (js_mul (vy k) (vy hi))),
          vz = js_add (vz p) (js_max (js_mul (vz k) (vz lo)) (js_mul (vz k) (vz hi)))\<rparr>\<rparr>)"


text \<open>A box with finite corners.\<close>

definition Box3 :: "real \<Rightarrow> real \<Rightarrow> real \<Rightarrow> real \<Rightarrow> real \<Rightarrow> real \<Rightarrow> box3" where
  "Box3 x0 y0 z0 x1 y1 z1 =
     \<lparr>box_min = Vector3 (Num x0) (Num y0) (Num z0),
      box_max = Vector3 (Num x1) (Num y1) (Num z1)\<rparr>"

text \<open>
  The root as the model loader delivers it: a fresh group at the origin, unscaled and
  unrotated, so that the box the script measures is the box of the geometry in the frame
  of the root.
\<close>

definition gltf_root :: "object3d \<Rightarrow> model" where
  "gltf_root r =
     \<lparr>position = Vector3 (Num 0) (Num 0) (Num 0),
      scale = Vector3 (Num 1) (Num 1) (Num 1),
      rotation_y = Num 0,
      root = r\<rparr>"

section \<open>Sample inputs\<close>

text \<open>
  A small model for evaluating the script: a group holding a mesh and a nested group with
  a second mesh, measured with box size \<open>(2, 10, 4)\<close>; and an environment texture.
\<close>

definition sample_material :: "number \<Rightarrow> material" where
  "sample_material r =
     \<lparr>metalness = Num 1, roughness = r, toneMapping = None, toneMappingExposure = None,
      version = 0\<rparr>"

definition sample_mesh :: "number \<Rightarrow> mesh" where
  "sample_mesh r = \<lparr>material = sample_material r, castShadow = False, receiveShadow = False\<rparr>"

definition sample_tree :: object3d where
  "sample_tree =
     Object3D None
       [Object3D (Some (sample_mesh (Num 1))) [],
        Object3D None [Object3D (Some (sample_mesh (Num (1 / 2)))) []]]"

definition sample_gltf :: gltf where
  "sample_gltf = \<lparr>gltf_scene = gltf_root sample_tree, bounds = Box3 2 0 0 4 10 4\<rparr>"

definition sample_hdr :: texture where
  "sample_hdr = \<lparr>texture_mapping = UVMapping, texture_intensity = None\<rparr>"

text \<open>The model above, loaded while the environment load is still pending.\<close>

definition sample_state :: state where
  "sample_state = run [ModelLoaded sample_gltf] init_state"

section \<open>Sequences of events\<close>

text \<open>The completions of the environment load.\<close>

fun is_env_event :: "event \<Rightarrow> bool" where
  "is_env_event (EnvLoaded t) = True"
| "is_env_event (EnvFailed err) = True"
| "is_env_event _ = False"

text \<open>
  Whether the environment load has completed with a texture: its first completion in the
  sequence, if any, is a success.
\<close>

fun env_loaded :: "event list \<Rightarrow> bool" where
  "env_loaded [] = False"
| "env_loaded (EnvLoaded t # es) = True"
| "env_loaded (EnvFailed err # es) = False"
| "env_loaded (_ # es) = env_loaded es"

section \<open>The state apart from the dirty counters\<close>



section \<open>Rounding\<close>

lemma pow2_powr: "pow2 e = 2 powr (real_of_int e)"
proof (cases "0 \<le> e")
  case True
  then have "real_of_int e = real (nat e)" by simp
  then have "2 powr (real_of_int e) = (2::real) ^ nat e"
    by (simp only: powr_realpow[of 2 "nat e"] zero_less_numeral)
  then show ?thesis using True by (simp add: pow2_def)
next
  case False
  then have "real_of_int e = - real (nat (- e))" by simp
  then have "2 powr (real_of_int e) = 1 / (2::real) ^ nat (- e)"
    by (simp only: powr_minus powr_realpow[of 2 "nat (- e)"] zero_less_numeral divide_inverse mult_1)
  then show ?thesis using False by (simp add: pow2_def)
qed

lemma pow2_pos [simp]: "0 < pow2 e"
  by (simp add: pow2_powr)

lemma pow2_add: "pow2 (a + b) = pow2 a * pow2 b"
  by (simp add: pow2_powr powr_add)

lemma pow2_mono: "a \<le> b \<Longrightarrow> pow2 a \<le> pow2 b"
  by (simp add: pow2_powr)

lemma pow2_less: "a < b \<Longrightarrow> pow2 a < pow2 b"
  by (simp add: pow2_powr)

lemma pow2_0 [simp]: "pow2 0 = 1"
  by (simp add: pow2_def)

lemma pow2_nat: "0 \<le> e \<Longrightarrow> pow2 e = 2 ^ nat e"
  by (simp add: pow2_def)

lemma pow2_nonzero [simp]: "pow2 e \<noteq> 0"
  using pow2_pos[of e] by linarith

lemma pow2_nonneg [simp]: "0 \<le> pow2 e"
  using pow2_pos[of e] by linarith

lemma pow2_abs [simp]: "\<bar>pow2 e\<bar> = pow2 e"
  using pow2_pos[of e] by linarith

lemma rne_eq:
  assumes "x = of_int n + r" and "0 \<le> r" and "r < 1"
  shows "rne x = (if r < 1 / 2 then n else if 1 / 2 < r then n + 1
                  else if even n then n else n + 1)"
proof -
  have f: "\<lfloor>x\<rfloor> = n" using assms by linarith
  have g: "x - of_int n = r" using assms by simp
  show ?thesis unfolding rne_def Let_def f g by simp
qed


lemma rne_of_int [simp]: "rne (of_int n) = n"
  by (simp add: rne_def)

lemma rne_bounds: "\<lfloor>x\<rfloor> \<le> rne x" "rne x \<le> \<lfloor>x\<rfloor> + 1"
  by (simp_all add: rne_def Let_def)

lemma rne_mono:
  assumes "x \<le> y"
  shows "rne x \<le> rne y"
proof (cases "\<lfloor>x\<rfloor> = \<lfloor>y\<rfloor>")
  case True
  have "x - of_int \<lfloor>x\<rfloor> \<le> y - of_int \<lfloor>y\<rfloor>" using assms True by simp
  then show ?thesis
    unfolding rne_def Let_def True by auto
next
  case False
  have "\<lfloor>x\<rfloor> \<le> \<lfloor>y\<rfloor>" using assms by (rule floor_mono)
  with False have "\<lfloor>x\<rfloor> + 1 \<le> \<lfloor>y\<rfloor>" by simp
  with rne_bounds(2)[of x] rne_bounds(1)[of y] show ?thesis by linarith
qed

lemma rne_minus: "rne (- x) = - rne x"
proof (cases "x = of_int \<lfloor>x\<rfloor>")
  case True
  then have "- x = of_int (- \<lfloor>x\<rfloor>)" by simp
  then have "rne (- x) = - \<lfloor>x\<rfloor>" by (simp only: rne_of_int)
  moreover have "rne x = \<lfloor>x\<rfloor>" using True by (metis rne_of_int)
  ultimately show ?thesis by simp
next
  case False
  define n where "n = \<lfloor>x\<rfloor>"
  define r where "r = x - of_int n"
  have r: "0 < r" "r < 1" using False unfolding r_def n_def by linarith+
  have 1: "x = of_int n + r" by (simp add: r_def)
  have 2: "- x = of_int (- n - 1) + (1 - r)" by (simp add: r_def)
  have e: "even (- n - 1) \<longleftrightarrow> odd n" by simp
  have a: "rne x = (if r < 1 / 2 then n else if 1 / 2 < r then n + 1
                  else if even n then n else n + 1)"
    by (rule rne_eq[OF 1]) (use r in simp_all)
  have b: "rne (- x) = (if 1 - r < 1 / 2 then - n - 1 else if 1 / 2 < 1 - r then - n - 1 + 1
                  else if even (- n - 1) then - n - 1 else - n - 1 + 1)"
    by (rule rne_eq[OF 2]) (use r in simp_all)
  show ?thesis
    unfolding a b e using r by auto
qed

lemma exponent_bounds:
  assumes "x \<noteq> 0"
  shows "pow2 (exponent x) \<le> \<bar>x\<bar> \<and> \<bar>x\<bar> < pow2 (exponent x + 1)"
proof (cases "1 \<le> \<bar>x\<bar>")
  case True
  define n where "n = \<lfloor>\<bar>x\<bar>\<rfloor>"
  have n: "0 < n" using True by (simp add: n_def)
  have e: "exponent x = bitlen n - 1" using True by (simp add: exponent_def n_def)
  have b1: "1 \<le> bitlen n" using n by (simp add: bitlen_alt_def)
  from bitlen_bounds[OF n] have lo: "2 ^ nat (bitlen n - 1) \<le> n" and hi: "n < 2 ^ nat (bitlen n)"
    by simp_all
  have "pow2 (bitlen n - 1) = real_of_int (2 ^ nat (bitlen n - 1))"
    using b1 by (simp add: pow2_nat)
  also have "\<dots> \<le> real_of_int n" using lo by linarith
  also have "\<dots> \<le> \<bar>x\<bar>" by (simp add: n_def)
  finally have 1: "pow2 (exponent x) \<le> \<bar>x\<bar>" by (simp add: e)
  have "n + 1 \<le> 2 ^ nat (bitlen n)" using hi by simp
  then have "real_of_int (n + 1) \<le> real_of_int (2 ^ nat (bitlen n))" by linarith
  moreover have "\<bar>x\<bar> < real_of_int (n + 1)" by (simp add: n_def)
  ultimately have "\<bar>x\<bar> < pow2 (bitlen n)" using b1 by (simp add: pow2_nat)
  then show ?thesis using 1 by (simp add: e)
next
  case False
  define y where "y = 1 / \<bar>x\<bar>"
  define n where "n = \<lceil>y\<rceil> - 1"
  define L where "L = bitlen n"
  have x: "0 < \<bar>x\<bar>" "\<bar>x\<bar> < 1" using assms False by simp_all
  have y: "1 < y" using x by (simp add: y_def)
  then have "2 \<le> \<lceil>y\<rceil>" by linarith
  then have n: "0 < n" by (simp add: n_def)
  have e: "exponent x = - L" using False by (simp add: exponent_def L_def n_def y_def)
  have b1: "1 \<le> L" using n by (simp add: L_def bitlen_alt_def)
  from bitlen_bounds[OF n] have lo: "2 ^ nat (L - 1) \<le> n" and hi: "n < 2 ^ nat L"
    by (simp_all add: L_def)
  have ny: "real_of_int n < y" "y \<le> real_of_int (n + 1)"
    unfolding n_def by linarith+
  have "n + 1 \<le> 2 ^ nat L" using hi by simp
  then have "real_of_int (n + 1) \<le> real_of_int (2 ^ nat L)" by linarith
  with ny have yL: "y \<le> 2 ^ nat L" by simp
  have "real_of_int (2 ^ nat (L - 1)) \<le> real_of_int n"
    using lo by (simp only: of_int_le_iff)
  then have "(2::real) ^ nat (L - 1) \<le> real_of_int n" by simp
  with ny have Ly: "2 ^ nat (L - 1) < y" by linarith
  have p1: "pow2 (- L) = 1 / 2 ^ nat L" using b1 by (simp add: pow2_def)
  have p2: "pow2 (1 - L) = 1 / 2 ^ nat (L - 1)"
  proof (cases "L = 1")
    case True then show ?thesis by (simp add: pow2_def)
  next
    case False
    then have "1 - L < 0" using b1 by simp
    moreover have "nat (- (1 - L)) = nat (L - 1)" by simp
    ultimately show ?thesis by (simp add: pow2_def)
  qed
  have ax: "\<bar>x\<bar> = 1 / y" using x by (simp add: y_def)
  have "1 / 2 ^ nat L \<le> 1 / y" using yL y by (simp add: frac_le)
  moreover have "1 / y < 1 / 2 ^ nat (L - 1)" using Ly by (simp add: frac_less2)
  ultimately show ?thesis by (simp add: e p1 p2 ax)
qed

lemma exponent_eqI:
  assumes "pow2 k \<le> \<bar>x\<bar>" and "\<bar>x\<bar> < pow2 (k + 1)"
  shows "exponent x = k"
proof -
  have "0 < \<bar>x\<bar>" using assms(1) pow2_pos[of k] by linarith
  then have "x \<noteq> 0" by simp
  from exponent_bounds[OF this] have b: "pow2 (exponent x) \<le> \<bar>x\<bar>" "\<bar>x\<bar> < pow2 (exponent x + 1)"
    by simp_all
  have "pow2 k < pow2 (exponent x + 1)" using assms(1) b(2) by simp
  then have 1: "k < exponent x + 1" by (simp add: pow2_powr)
  have "pow2 (exponent x) < pow2 (k + 1)" using assms(2) b(1) by simp
  then have 2: "exponent x < k + 1" by (simp add: pow2_powr)
  from 1 2 show ?thesis by simp
qed


lemma rne_0 [simp]: "rne 0 = 0"
  using rne_of_int[of 0] by simp

lemma fl_0 [simp]: "fl 0 = 0"
  by (simp add: fl_def)

lemma round64_0 [simp]: "round64 0 = Num 0"
proof -
  have "\<not> pow2 1024 \<le> 0" using pow2_pos[of 1024] by linarith
  then show ?thesis by (simp add: round64_def)
qed


lemma exponent_mono:
  assumes "x \<noteq> 0" and "\<bar>x\<bar> \<le> \<bar>y\<bar>"
  shows "exponent x \<le> exponent y"
proof -
  have y: "y \<noteq> 0" using assms by auto
  from exponent_bounds[OF assms(1)] exponent_bounds[OF y] assms(2)
  have "pow2 (exponent x) < pow2 (exponent y + 1)" by linarith
  then show ?thesis by (simp add: pow2_powr)
qed

lemma fl_nonneg: "0 \<le> x \<Longrightarrow> 0 \<le> fl x"
proof -
  assume "0 \<le> x"
  then have "0 \<le> x / pow2 (ulp_exp x)" by simp
  from rne_mono[OF this] have "0 \<le> rne (x / pow2 (ulp_exp x))"
    using rne_of_int[of 0] by simp
  then show ?thesis by (simp add: fl_def)
qed

lemma pow2_numeral: "pow2 52 = of_int (2 ^ 52)" "pow2 53 = of_int (2 ^ 53)"
  by (simp_all add: pow2_def)

lemma fl_mono_pos:
  assumes "0 < a" and "a \<le> b"
  shows "fl a \<le> fl b"
proof -
  have a0: "a \<noteq> 0" and b0: "b \<noteq> 0" using assms by auto
  have ab: "\<bar>a\<bar> \<le> \<bar>b\<bar>" using assms by simp
  have e: "exponent a \<le> exponent b" by (rule exponent_mono[OF a0 ab])
  then have q: "ulp_exp a \<le> ulp_exp b" by (simp add: ulp_exp_def)
  show ?thesis
  proof (cases "ulp_exp a = ulp_exp b")
    case True
    have "a / pow2 (ulp_exp b) \<le> b / pow2 (ulp_exp b)"
      using assms(2) by (simp add: divide_right_mono)
    from rne_mono[OF this] show ?thesis
      by (simp add: fl_def True)
  next
    case False
    with q have lt: "ulp_exp a < ulp_exp b" by simp
    then have eb: "ulp_exp b = exponent b - 52" by (auto simp: ulp_exp_def)
    from exponent_bounds[OF a0] have "a < pow2 (exponent a + 1)" using assms(1) by simp
    also have "\<dots> \<le> pow2 (ulp_exp a + 53)"
      by (rule pow2_mono) (simp add: ulp_exp_def)
    also have "\<dots> = pow2 53 * pow2 (ulp_exp a)"
      using pow2_add[of 53 "ulp_exp a"] by (simp add: add.commute)
    finally have "a / pow2 (ulp_exp a) \<le> pow2 53"
      by (simp add: pos_divide_le_eq)
    then have "a / pow2 (ulp_exp a) \<le> of_int (2 ^ 53)" by (simp only: pow2_numeral)
    from rne_mono[OF this] have "rne (a / pow2 (ulp_exp a)) \<le> 2 ^ 53"
      by (simp only: rne_of_int)
    then have "real_of_int (rne (a / pow2 (ulp_exp a))) \<le> pow2 53"
      unfolding pow2_numeral by (simp only: of_int_le_iff)
    then have "fl a \<le> pow2 53 * pow2 (ulp_exp a)"
      unfolding fl_def by (rule mult_right_mono) simp
    also have "\<dots> = pow2 (ulp_exp a + 53)"
      using pow2_add[of 53 "ulp_exp a"] by (simp add: add.commute)
    also have "\<dots> \<le> pow2 (ulp_exp b + 52)"
      by (rule pow2_mono) (use lt in simp)
    finally have 1: "fl a \<le> pow2 (ulp_exp b + 52)" .
    from exponent_bounds[OF b0] have "pow2 (exponent b) \<le> b" using assms by simp
    then have "pow2 52 * pow2 (ulp_exp b) \<le> b"
      using pow2_add[of 52 "ulp_exp b"] by (simp add: eb)
    then have "pow2 52 \<le> b / pow2 (ulp_exp b)"
      by (simp add: pos_le_divide_eq)
    then have "of_int (2 ^ 52) \<le> b / pow2 (ulp_exp b)" by (simp only: pow2_numeral)
    from rne_mono[OF this] have "2 ^ 52 \<le> rne (b / pow2 (ulp_exp b))"
      by (simp only: rne_of_int)
    then have "pow2 52 \<le> real_of_int (rne (b / pow2 (ulp_exp b)))"
      unfolding pow2_numeral by (simp only: of_int_le_iff)
    then have "pow2 52 * pow2 (ulp_exp b) \<le> fl b"
      unfolding fl_def by (rule mult_right_mono) simp
    then have 2: "pow2 (ulp_exp b + 52) \<le> fl b"
      using pow2_add[of 52 "ulp_exp b"] by (simp add: add.commute)
    from 1 2 show ?thesis by linarith
  qed
qed

lemma fl_mono_nonneg:
  assumes "0 \<le> a" and "a \<le> b"
  shows "fl a \<le> fl b"
proof (cases "a = 0")
  case True
  then show ?thesis using fl_nonneg[of b] assms by simp
next
  case False
  then show ?thesis using fl_mono_pos[of a b] assms by simp
qed

section \<open>Normalization of the loaded model\<close>

text \<open>
  Facts for evaluating the arithmetic and the normalization on given numbers.
\<close>

lemmas binary64_eval =
  round64_def fl_def ulp_exp_def exponent_def bitlen_def compute_floorlog rne_def pow2_def
  Let_def inf_of_def

lemmas normalize_eval =
  normalize_def scaleFactor_def maxDimension_def getSize_def getCenter_def isEmpty_def
  Math_max_def sub_def js_sub_def setY_def setScalar_def Vector3_def Box3_def gltf_root_def


lemma scale_normalize: "scale (normalize box d) = setScalar (scaleFactor box)"
  by (simp add: normalize_def Let_def)

lemma pow2_values:
  "pow2 3 = 8" "pow2 4 = 16" "pow2 2 = 4" "pow2 (- 3) = 1 / 8"
  by (simp_all add: pow2_def)

lemma exponent_minus [simp]: "exponent (- x) = exponent x"
  by (simp add: exponent_def)

lemma fl_minus: "fl (- x) = - fl x"
  by (simp add: fl_def ulp_exp_def rne_minus)

lemma fl_mono:
  assumes "a \<le> b"
  shows "fl a \<le> fl b"
proof (cases "0 \<le> a")
  case True
  then show ?thesis by (rule fl_mono_nonneg[OF _ assms])
next
  case False
  then have a: "0 \<le> - a" by simp
  show ?thesis
  proof (cases "0 \<le> b")
    case True
    from fl_nonneg[OF a] fl_nonneg[OF True] show ?thesis by (simp add: fl_minus)
  next
    case False
    then have "0 \<le> - b" and "- b \<le> - a" using assms by simp_all
    from fl_mono_nonneg[OF this] show ?thesis by (simp add: fl_minus)
  qed
qed

lemma fl_pow2_1024: "fl (pow2 1024) = pow2 1024"
proof -
  have "pow2 1024 < pow2 (1024 + 1)" by (rule pow2_less) simp
  then have "exponent (pow2 1024) = 1024"
    by (intro exponent_eqI) simp_all
  then have q: "ulp_exp (pow2 1024) = 972" by (simp add: ulp_exp_def)
  have p: "pow2 1024 = pow2 52 * pow2 972" using pow2_add[of 52 972] by simp
  then have "pow2 1024 / pow2 972 = of_int (2 ^ 52)" by (simp add: pow2_numeral)
  then have "rne (pow2 1024 / pow2 972) = 2 ^ 52" by (simp only: rne_of_int)
  then show ?thesis unfolding fl_def q by (simp add: p pow2_numeral)
qed

lemma round64_overflow:
  assumes "pow2 1024 \<le> x"
  shows "round64 x = PInf"
proof -
  have x: "0 < x" using assms pow2_pos[of 1024] by linarith
  from fl_mono[OF assms] have "pow2 1024 \<le> fl x" by (simp add: fl_pow2_1024)
  then have "pow2 1024 \<le> \<bar>fl x\<bar>" by linarith
  then show ?thesis using x by (simp add: round64_def inf_of_def)
qed



lemma scaleFactor_overflow:
  assumes "maxDimension box = Num m" and "0 < m" and "m \<le> pow2 (- 1022)"
  shows "scaleFactor box = PInf"
proof -
  have "pow2 1024 * m \<le> pow2 1024 * pow2 (- 1022)"
    using assms(3) by (simp add: mult_left_mono)
  also have "\<dots> = 4" using pow2_add[of 1024 "- 1022"] by (simp add: pow2_values)
  finally have "pow2 1024 \<le> 5 / m" using assms(2) by (simp add: pos_le_divide_eq)
  from round64_overflow[OF this] show ?thesis
    using assms(1,2) by (simp add: scaleFactor_def)
qed

lemma normalize_rests_on_plane:
  assumes k: "scaleFactor box = Num k" and k0: "0 \<le> k"
    and lo: "vy (box_min box) = Num y0" and hi: "vy (box_max box) = Num y1"
    and le: "y0 \<le> y1"
    and f0: "- pow2 1024 < fl (k * y0)" and f1: "fl (k * y1) < pow2 1024"
  shows "vy (box_min (worldBox (normalize box d) box)) = Num 0"
proof -
  have m: "fl (k * y0) \<le> fl (k * y1)"
    by (rule fl_mono) (use k0 le in \<open>simp add: mult_left_mono\<close>)
  have a: "\<bar>fl (k * y0)\<bar> < pow2 1024" using f0 f1 m by linarith
  have b: "\<bar>fl (k * y1)\<bar> < pow2 1024" using f0 f1 m by linarith
  have r0: "round64 (k * y0) = Num (fl (k * y0))" using a by (simp add: round64_def)
  have r1: "round64 (k * y1) = Num (fl (k * y1))" using b by (simp add: round64_def)
  have "fl (- (k * y0)) = - fl (k * y0)" by (rule fl_minus)
  then have rn: "round64 (- (k * y0)) = Num (- fl (k * y0))" using a by (simp add: round64_def)
  have p: "vy (position (normalize box d)) = Num (- fl (k * y0))"
    by (simp add: normalize_def Let_def setY_def k lo mult.commute rn)
  have s: "vy (scale (normalize box d)) = Num k"
    by (simp add: scale_normalize k setScalar_def)
  show ?thesis
    using m by (simp add: worldBox_def Let_def p s lo hi r0 r1)
qed










text \<open>
  Claim C2, as the script has it. The division \<open>5 / maxDimension\<close> has no guard: for a
  model whose largest extent is zero the scale factor is \<open>+Infinity\<close>, a non-finite value,
  and the script writes it to all three axes of the root.
\<close>

theorem degenerate_scale_infinite:
  assumes "maxDimension box = Num 0"
  shows "scaleFactor box = PInf \<and> \<not> isFinite (scaleFactor box)
    \<and> scale (normalize box d) = Vector3 PInf PInf PInf"
  using assms
  by (simp add: scaleFactor_def normalize_def Let_def inf_of_def setScalar_def Vector3_def setY_def)

lemma maxDimension_point: "maxDimension (Box3 1 2 3 1 2 3) = Num 0"
  by (simp add: maxDimension_def getSize_def isEmpty_def Math_max_def sub_def js_sub_def
        Vector3_def Box3_def)

theorem degenerate_scale_infinite_witness:
  "maxDimension (Box3 1 2 3 1 2 3) = Num 0 \<and> scaleFactor (Box3 1 2 3 1 2 3) = PInf
   \<and> scale (normalize (Box3 1 2 3 1 2 3) (gltf_root (Object3D None []))) = Vector3 PInf PInf PInf"
proof -
  have h: "maxDimension (Box3 1 2 3 1 2 3) = Num 0"
    by (rule maxDimension_point)
  show ?thesis
    using h degenerate_scale_infinite [OF h, of "gltf_root (Object3D None [])"] by simp
qed

text \<open>
  Claim C2 as stated fails on a model that is a single point at \<open>(1, 2, 3)\<close>: its largest
  extent is zero, and the scale factor is neither finite nor 1, nor is the root left as it
  was.
\<close>

theorem degenerate_scale_counterexample:
  "maxDimension (Box3 1 2 3 1 2 3) = Num 0
   \<and> \<not> (isFinite (scaleFactor (Box3 1 2 3 1 2 3))
        \<and> scaleFactor (Box3 1 2 3 1 2 3) = Num 1
        \<and> normalize (Box3 1 2 3 1 2 3) (gltf_root (Object3D None [])) = gltf_root (Object3D None []))"
  by (simp add: maxDimension_point scaleFactor_def inf_of_def)

lemma normalize_sample:
  "normalize (Box3 2 0 0 4 10 4) (gltf_root (Object3D None [])) =
      (gltf_root (Object3D None []))\<lparr>scale := setScalar (Num (1 / 2)),
         position := Vector3 (Num (- 3)) (Num 0) (Num (- 2))\<rparr>"
  by (simp add: normalize_eval binary64_eval)

lemma worldBox_sample:
  "worldBox (normalize (Box3 2 0 0 4 10 4) (gltf_root (Object3D None []))) (Box3 2 0 0 4 10 4) =
       Box3 (- 2) 0 (- 2) (- 1) 5 0"
  unfolding normalize_sample
  by (simp add: worldBox_def normalize_eval binary64_eval)

text \<open>
  Claim C3 at the box from \<open>(2, 0, 0)\<close> to \<open>(4, 10, 4)\<close>, size \<open>(2, 10, 4)\<close>, on a root at
  the origin. The script subtracts the centre \<open>(3, 5, 2)\<close> of the unscaled box from the
  position while the geometry is scaled by \<open>1/2\<close>: the model then spans \<open>-2\<close> to \<open>-1\<close> in
  \<open>x\<close> and \<open>-2\<close> to \<open>0\<close> in \<open>z\<close>, so its centre is at \<open>(-3/2, 5/2, -1)\<close> and not above the
  origin. Its lowest point is at height 0, as \<open>normalize_rests_on_plane\<close> shows for every
  model whose scaled heights are finite.
\<close>

theorem centering_misses_origin:
  "position (normalize (Box3 2 0 0 4 10 4) (gltf_root (Object3D None []))) =
     Vector3 (Num (- 3)) (Num 0) (Num (- 2))
   \<and> worldBox (normalize (Box3 2 0 0 4 10 4) (gltf_root (Object3D None []))) (Box3 2 0 0 4 10 4) =
       Box3 (- 2) 0 (- 2) (- 1) 5 0
   \<and> getCenter (worldBox (normalize (Box3 2 0 0 4 10 4) (gltf_root (Object3D None [])))
        (Box3 2 0 0 4 10 4)) = Vector3 (Num (- (3 / 2))) (Num (5 / 2)) (Num (- 1))"
proof -
  have c: "getCenter (Box3 (- 2) 0 (- 2) (- 1) 5 0) =
      Vector3 (Num (- (3 / 2))) (Num (5 / 2)) (Num (- 1))"
    by (simp add: normalize_eval binary64_eval)
  show ?thesis
    unfolding worldBox_sample c by (simp add: normalize_sample)
qed

section \<open>Traversal of the model\<close>

lemma set_needsUpdate_True [simp]:
  "set_needsUpdate True m = m\<lparr>version := Suc (version m)\<rparr>"
  by (simp add: set_needsUpdate_def)

lemma materials_traverse_on_material:
  "materials (traverse (on_material f) t) = map f (materials t)"
proof (induction t)
  case (Object3D child cs)
  have kids: "map (\<lambda>c. materials (traverse (on_material f) c)) cs =
              map (\<lambda>c. map f (materials c)) cs"
    by (rule map_cong) (simp_all add: Object3D)
  have own: "(case on_material f child of None \<Rightarrow> [] | Some m \<Rightarrow> [material m]) =
             map f (case child of None \<Rightarrow> [] | Some m \<Rightarrow> [material m])"
    by (cases child) (simp_all add: on_material_def)
  show ?case
    by (simp add: own kids map_concat comp_def)
qed

lemma materials_traverse_load_pass:
  "materials (traverse (load_pass w) t) =
     map (\<lambda>m. m\<lparr>metalness := window_defaultMetalness w,
                 roughness := window_defaultRoughness w, version := Suc (version m)\<rparr>) (materials t)"
proof (induction t)
  case (Object3D child cs)
  let ?g = "\<lambda>m. m\<lparr>metalness := window_defaultMetalness w,
                 roughness := window_defaultRoughness w, version := Suc (version m)\<rparr>"
  have kids: "map (\<lambda>c. materials (traverse (load_pass w) c)) cs =
              map (\<lambda>c. map ?g (materials c)) cs"
    by (rule map_cong) (simp_all add: Object3D)
  have own: "(case load_pass w child of None \<Rightarrow> [] | Some m \<Rightarrow> [material m]) =
             map ?g (case child of None \<Rightarrow> [] | Some m \<Rightarrow> [material m])"
    by (cases child) (simp_all add: load_pass_def)
  show ?case
    by (simp add: own kids map_concat comp_def)
qed

lemma traverse_idem:
  assumes "\<And>c. f (f c) = f c"
  shows "traverse f (traverse f t) = traverse f t"
  by (induction t) (simp add: assms)

lemma on_material_idem:
  assumes "\<And>m. f (f m) = f m"
  shows "on_material f (on_material f c) = on_material f c"
  by (cases c) (simp_all add: on_material_def assms)

lemma mesh_materials_traverse_duck:
  "mesh_materials (traverse_duck (on_material f) s) = map f (mesh_materials s)"
  by (cases "rubberDuck s")
     (simp_all add: mesh_materials_def traverse_duck_def materials_traverse_on_material)

lemma mesh_materials_setToneMapping:
  "mesh_materials (state_of (setValue (SetToneMapping name) s)) =
     map (\<lambda>m. m\<lparr>toneMapping := THREE name,
                 toneMappingExposure := Some (window_toneMappingExposure (window s)),
                 version := Suc (version m)\<rparr>) (mesh_materials s)"
  by (simp add: setValue_def toneMapping_onChange_def Let_def mesh_materials_traverse_duck)
     (simp add: mesh_materials_def)

lemma mesh_materials_gltf_onLoad:
  "mesh_materials (gltf_onLoad g s) =
     map (\<lambda>m. m\<lparr>metalness := window_defaultMetalness (window s),
                 roughness := window_defaultRoughness (window s),
                 version := Suc (version m)\<rparr>)
       (materials (root (gltf_scene g)))"
  by (simp add: mesh_materials_def gltf_onLoad_def Let_def materials_traverse_load_pass
        normalize_def)

lemma gltf_onLoad_frame:
  "rubberDuck (gltf_onLoad g s) \<noteq> None"
  "environment (scene (gltf_onLoad g s)) = environment (scene s)"
  "window (gltf_onLoad g s) = window s"
  by (simp_all add: gltf_onLoad_def Let_def)

section \<open>The sample state\<close>

lemma init_state_pending:
  "model_pending init_state" "env_pending init_state"
  by (simp_all add: init_state_def)

lemma sample_state_eq:
  "sample_state = gltf_onLoad sample_gltf (init_state\<lparr>model_pending := False\<rparr>)"
  by (simp add: sample_state_def init_state_pending)

lemma mesh_materials_sample_state:
  "mesh_materials sample_state =
     [\<lparr>metalness = round64 (3 / 10), roughness = round64 (8 / 10), toneMapping = None,
       toneMappingExposure = None, version = 1\<rparr>,
      \<lparr>metalness = round64 (3 / 10), roughness = round64 (8 / 10), toneMapping = None,
       toneMappingExposure = None, version = 1\<rparr>]"
proof -
  have w: "window_defaultMetalness (window init_state) = round64 (3 / 10)"
    "window_defaultRoughness (window init_state) = round64 (8 / 10)"
    by (simp_all add: init_state_def)
  have t: "materials (root (gltf_scene sample_gltf)) =
       [sample_material (Num 1), sample_material (Num (1 / 2))]"
    by (simp add: sample_gltf_def gltf_root_def sample_tree_def sample_mesh_def)
  show ?thesis
    unfolding sample_state_eq mesh_materials_gltf_onLoad t
    by (simp add: w sample_material_def)
qed

lemma THREE_Reinhard: "THREE ''ReinhardToneMapping'' = Some ReinhardToneMapping"
  by (simp add: THREE_def)

section \<open>Tone mapping and exposure\<close>

text \<open>
  Claim C4. A change of the tone-mapping mode returns, and afterwards the renderer and every
  mesh material of the loaded model hold the same tone-mapping value, the one the name
  resolves to in the library.
\<close>

theorem toneMapping_agrees:
  "\<not> has_thrown (setValue (SetToneMapping name) s)
   \<and> renderer_toneMapping (renderer (state_of (setValue (SetToneMapping name) s))) = THREE name
   \<and> (\<forall>m \<in> set (mesh_materials (state_of (setValue (SetToneMapping name) s))).
         toneMapping m = THREE name
         \<and> toneMapping m = renderer_toneMapping (renderer (state_of (setValue (SetToneMapping name) s))))"
  by (simp add: mesh_materials_setToneMapping)
     (simp add: setValue_def toneMapping_onChange_def Let_def traverse_duck_def)

theorem toneMapping_agrees_witness:
  "renderer_toneMapping (renderer (state_of (setValue (SetToneMapping ''ReinhardToneMapping'')
       sample_state))) = Some ReinhardToneMapping
   \<and> map toneMapping (mesh_materials (state_of (setValue (SetToneMapping ''ReinhardToneMapping'')
       sample_state))) = [Some ReinhardToneMapping, Some ReinhardToneMapping]"
proof -
  have m: "map toneMapping (mesh_materials (state_of (setValue (SetToneMapping ''ReinhardToneMapping'')
       sample_state))) = [THREE ''ReinhardToneMapping'', THREE ''ReinhardToneMapping'']"
    unfolding mesh_materials_setToneMapping mesh_materials_sample_state by simp
  from toneMapping_agrees [of "''ReinhardToneMapping''" sample_state]
  have "renderer_toneMapping (renderer (state_of (setValue (SetToneMapping ''ReinhardToneMapping'')
       sample_state))) = THREE ''ReinhardToneMapping''"
    by (rule conjunct1[OF conjunct2])
  then show ?thesis
    unfolding m THREE_Reinhard by simp
qed

text \<open>
  Claim C5. A change of the exposure writes the new value to the parameter and to the
  renderer, and to nothing else: the model, and with it every mesh material and its
  tone-mapping exposure, is as before, and so is the tone-mapping mode of the renderer.
\<close>

theorem exposure_renderer_only:
  "setValue (SetToneMappingExposure v) s =
     Returned (s\<lparr>window := (window s)\<lparr>window_toneMappingExposure := v\<rparr>,
                 renderer := (renderer s)\<lparr>renderer_toneMappingExposure := v\<rparr>\<rparr>)
   \<and> rubberDuck (state_of (setValue (SetToneMappingExposure v) s)) = rubberDuck s
   \<and> mesh_materials (state_of (setValue (SetToneMappingExposure v) s)) = mesh_materials s
   \<and> renderer_toneMappingExposure (renderer (state_of (setValue (SetToneMappingExposure v) s))) = v
   \<and> renderer_toneMapping (renderer (state_of (setValue (SetToneMappingExposure v) s))) =
       renderer_toneMapping (renderer s)"
  by (simp add: setValue_def toneMappingExposure_onChange_def mesh_materials_def)

text \<open>
  Claim C10. The callback of the tone-mapping mode writes the stored exposure parameter as
  well: after a mode change the exposure of the renderer and of every mesh material is the
  current exposure parameter, which the change leaves as it was; a change of the exposure
  itself does not touch the materials.
\<close>

theorem toneMapping_reapplies_exposure:
  "renderer_toneMappingExposure (renderer (state_of (setValue (SetToneMapping name) s))) =
      window_toneMappingExposure (window s)
   \<and> window_toneMappingExposure (window (state_of (setValue (SetToneMapping name) s))) =
      window_toneMappingExposure (window s)
   \<and> (\<forall>m \<in> set (mesh_materials (state_of (setValue (SetToneMapping name) s))).
         toneMappingExposure m = Some (window_toneMappingExposure (window s)))
   \<and> mesh_materials (state_of (setValue (SetToneMappingExposure v) s)) = mesh_materials s"
  by (simp add: setValue_def toneMapping_onChange_def toneMappingExposure_onChange_def Let_def
        mesh_materials_traverse_duck)
     (simp add: traverse_duck_def mesh_materials_def)

theorem toneMapping_reapplies_exposure_witness:
  "map toneMappingExposure
       (mesh_materials (state_of (setValue (SetToneMappingExposure (Num 2)) sample_state))) =
       [None, None]
   \<and> renderer_toneMappingExposure (renderer (state_of (setValue (SetToneMapping ''NoToneMapping'')
       (state_of (setValue (SetToneMappingExposure (Num 2)) sample_state))))) = Num 2
   \<and> map toneMappingExposure (mesh_materials (state_of (setValue (SetToneMapping ''NoToneMapping'')
       (state_of (setValue (SetToneMappingExposure (Num 2)) sample_state))))) =
       [Some (Num 2), Some (Num 2)]"
proof -
  define s where "s = state_of (setValue (SetToneMappingExposure (Num 2)) sample_state)"
  have m: "mesh_materials s = mesh_materials sample_state"
    by (simp add: s_def setValue_def toneMappingExposure_onChange_def mesh_materials_def)
  have w: "window_toneMappingExposure (window s) = Num 2"
    by (simp add: s_def setValue_def toneMappingExposure_onChange_def)
  have a: "map toneMappingExposure (mesh_materials s) = [None, None]"
    unfolding m mesh_materials_sample_state by simp
  have b: "map toneMappingExposure
      (mesh_materials (state_of (setValue (SetToneMapping ''NoToneMapping'') s))) =
      [Some (Num 2), Some (Num 2)]"
    unfolding mesh_materials_setToneMapping m mesh_materials_sample_state w by simp
  from toneMapping_reapplies_exposure [of "''NoToneMapping''" s "Num 2"]
  have "renderer_toneMappingExposure
      (renderer (state_of (setValue (SetToneMapping ''NoToneMapping'') s))) =
      window_toneMappingExposure (window s)"
    by (rule conjunct1)
  then show ?thesis
    unfolding s_def[symmetric] a b w by simp
qed

section \<open>Idempotence of the bindings\<close>













section \<open>Load outcomes\<close>

lemma run_append: "run (xs @ ys) s = run ys (run xs s)"
  by (induction xs arbitrary: s) simp_all

lemma setValue_frame:
  "scene (state_of (setValue c s)) = scene s"
  "env_pending (state_of (setValue c s)) = env_pending s"
  "model_pending (state_of (setValue c s)) = model_pending s"
  "console (state_of (setValue c s)) = console s"
  by (cases c; simp add: setValue_def metalness_onChange_def roughness_onChange_def
        toneMapping_onChange_def toneMappingExposure_onChange_def updateEnvironment_def
        updateLights_def rotation_onChange_def traverse_duck_def Let_def
        split: option.splits texture_ref.splits)+

lemma step_env_frame:
  assumes "\<not> is_env_event e"
  shows "environment (scene (step e s)) = environment (scene s)"
    and "env_pending (step e s) = env_pending s"
  using assms
  by (cases e; simp add: gltf_onLoad_def gltf_onError_def Let_def setValue_frame)+

lemma environment_done:
  "\<not> env_pending s \<Longrightarrow> environment (scene (run es s)) = environment (scene s)"
proof (induction es arbitrary: s)
  case Nil
  then show ?case by simp
next
  case (Cons e es)
  show ?case
  proof (cases "is_env_event e")
    case True
    then have "step e s = s" using Cons.prems by (cases e) simp_all
    then show ?thesis using Cons by simp
  next
    case False
    then show ?thesis using Cons by (simp add: step_env_frame)
  qed
qed

lemma environment_pending:
  "env_pending s \<Longrightarrow> environment (scene s) = None \<Longrightarrow>
   (environment (scene (run es s)) = None) = (\<not> env_loaded es)"
proof (induction es arbitrary: s)
  case Nil
  then show ?case by simp
next
  case (Cons e es)
  show ?case
  proof (cases e)
    case (EnvLoaded t)
    then show ?thesis using Cons.prems
      by (simp add: environment_done hdr_onLoad_def)
  next
    case (EnvFailed err)
    then show ?thesis using Cons.prems
      by (simp add: environment_done)
  next
    case (ModelLoaded g)
    then have "\<not> is_env_event e" by simp
    from step_env_frame[OF this, of s] Cons ModelLoaded show ?thesis by simp
  next
    case (ModelFailed err)
    then have "\<not> is_env_event e" by simp
    from step_env_frame[OF this, of s] Cons ModelFailed show ?thesis by simp
  next
    case (Changed c)
    then have "\<not> is_env_event e" by simp
    from step_env_frame[OF this, of s] Cons Changed show ?thesis by simp
  qed
qed

lemma step_children_grow:
  "set (scene_children (scene s)) \<subseteq> set (scene_children (scene (step e s)))"
  by (cases e) (auto simp: hdr_onLoad_def gltf_onLoad_def gltf_onError_def Let_def setValue_frame)

lemma run_children_grow:
  "set (scene_children (scene s)) \<subseteq> set (scene_children (scene (run es s)))"
proof (induction es arbitrary: s)
  case Nil
  show ?case by simp
next
  case (Cons e es)
  from step_children_grow[of s e] Cons[of "step e s"] show ?case by auto
qed

lemma lights_always_present:
  "AmbientLightRef \<in> set (scene_children (scene (run es init_state)))
   \<and> DirectionalLightRef \<in> set (scene_children (scene (run es init_state)))"
proof -
  have "set (scene_children (scene init_state)) = {AmbientLightRef, DirectionalLightRef}"
    by (simp add: init_state_def)
  with run_children_grow[of init_state es] show ?thesis by auto
qed

lemma model_loads_after_env_failure:
  "scene_children (scene (run [EnvFailed err, ModelLoaded g] init_state)) =
     [AmbientLightRef, DirectionalLightRef, RubberDuckRef, Light1Ref]
   \<and> rubberDuck (run [EnvFailed err, ModelLoaded g] init_state) \<noteq> None
   \<and> console (run [EnvFailed err, ModelLoaded g] init_state) = [ConsoleLog ''Rubber Duck loaded'']"
  by (simp add: init_state_def gltf_onLoad_def Let_def)

lemma model_failure_is_logged:
  "model_pending s \<Longrightarrow>
   step (ModelFailed err) s =
     s\<lparr>model_pending := False,
       console := console s @ [ConsoleError ''Error loading Rubber Duck:'' err]\<rparr>"
  by (simp add: gltf_onError_def)

lemma env_events_frame:
  assumes "\<forall>e \<in> set pre. is_env_event e"
  shows "window (run pre s) = window s \<and> model_pending (run pre s) = model_pending s
         \<and> rubberDuck (run pre s) = rubberDuck s"
  using assms
proof (induction pre arbitrary: s)
  case Nil
  show ?case by simp
next
  case (Cons e pre)
  then have "is_env_event e" by simp
  then have "window (step e s) = window s \<and> model_pending (step e s) = model_pending s
         \<and> rubberDuck (step e s) = rubberDuck s"
    by (cases e) (simp_all add: hdr_onLoad_def)
  with Cons show ?case by simp
qed

text \<open>
  Claim C7 at a failed environment load. The call that starts the environment load names
  no error callback, so the failure runs no code of the script and the console stays empty,
  whereas a failed model load is logged with its context. The rest of the claim holds: see
  \<open>lights_always_present\<close> and \<open>model_loads_after_env_failure\<close>.
\<close>

theorem env_failure_not_logged:
  "step (EnvFailed err) init_state = init_state\<lparr>env_pending := False\<rparr>
   \<and> console (step (EnvFailed err) init_state) = []
   \<and> console (step (EnvFailed err) s) = console s
   \<and> console (step (ModelFailed err) init_state) =
       [ConsoleError ''Error loading Rubber Duck:'' err]"
  by (simp add: init_state_def gltf_onError_def)

text \<open>
  Claim C8. The binding of the environment intensity throws a \<^verbatim>\<open>TypeError\<close> exactly when
  the scene has no environment, and from the initial state that is exactly as long as the
  environment load has not completed with a texture: while it is pending and after it has
  failed.
\<close>

theorem updateEnvironment_needs_environment:
  "(environment (scene s) = None \<longrightarrow>
      setValue (SetEnvMapIntensity v) s =
        Threw TypeError (s\<lparr>window := (window s)\<lparr>window_envMapIntensity := v\<rparr>\<rparr>))
   \<and> (has_thrown (setValue (SetEnvMapIntensity v) s) \<longleftrightarrow> environment (scene s) = None)
   \<and> (has_thrown (setValue (SetEnvMapIntensity v) (run es init_state)) \<longleftrightarrow> \<not> env_loaded es)"
proof -
  have a: "has_thrown (setValue (SetEnvMapIntensity v) t) \<longleftrightarrow> environment (scene t) = None" for t
    by (cases "environment (scene t)")
       (simp_all add: setValue_def updateEnvironment_def split: texture_ref.splits)
  have b: "(environment (scene (run es init_state)) = None) = (\<not> env_loaded es)"
    by (rule environment_pending) (simp_all add: init_state_def)
  have c: "environment (scene s) = None \<longrightarrow>
      setValue (SetEnvMapIntensity v) s =
        Threw TypeError (s\<lparr>window := (window s)\<lparr>window_envMapIntensity := v\<rparr>\<rparr>)"
    by (simp add: setValue_def updateEnvironment_def)
  show ?thesis using a b c by simp
qed

theorem updateEnvironment_needs_environment_witness:
  "environment (scene sample_state) = None
   \<and> setValue (SetEnvMapIntensity (Num 1)) sample_state =
       Threw TypeError (sample_state\<lparr>window := (window sample_state)\<lparr>window_envMapIntensity := Num 1\<rparr>\<rparr>)
   \<and> has_thrown (setValue (SetEnvMapIntensity (Num 1))
        (run [EnvFailed ''offline'', ModelLoaded sample_gltf] init_state))
   \<and> \<not> has_thrown (setValue (SetEnvMapIntensity (Num 1))
        (run [EnvLoaded sample_hdr, ModelLoaded sample_gltf] init_state))"
proof -
  have e: "environment (scene sample_state) = None"
    unfolding sample_state_eq gltf_onLoad_frame by (simp add: init_state_def)
  have f: "\<not> env_loaded [EnvFailed ''offline'', ModelLoaded sample_gltf]"
    by simp
  have l: "env_loaded [EnvLoaded sample_hdr, ModelLoaded sample_gltf]"
    by simp
  have 1: "setValue (SetEnvMapIntensity (Num 1)) sample_state =
       Threw TypeError (sample_state\<lparr>window := (window sample_state)\<lparr>window_envMapIntensity := Num 1\<rparr>\<rparr>)"
    using updateEnvironment_needs_environment [of sample_state "Num 1" "[]"] e by blast
  have 2: "has_thrown (setValue (SetEnvMapIntensity (Num 1))
        (run [EnvFailed ''offline'', ModelLoaded sample_gltf] init_state))"
    using updateEnvironment_needs_environment
        [of init_state "Num 1" "[EnvFailed ''offline'', ModelLoaded sample_gltf]"] f by blast
  have 3: "\<not> has_thrown (setValue (SetEnvMapIntensity (Num 1))
        (run [EnvLoaded sample_hdr, ModelLoaded sample_gltf] init_state))"
    using updateEnvironment_needs_environment
        [of init_state "Num 1" "[EnvLoaded sample_hdr, ModelLoaded sample_gltf]"] l by blast
  show ?thesis using e 1 2 3 by blast
qed

text \<open>
  Claim C9. When the model load succeeds before any change in the control panel (only
  completions of the environment load may come first), the model is in place, the
  metalness and roughness parameters still have their initial values 0.3 and 0.8, and
  every mesh material of the model has that metalness and that roughness.
\<close>

theorem load_materials_match_parameters:
  assumes "\<forall>e \<in> set pre. is_env_event e"
  shows "rubberDuck (run (pre @ [ModelLoaded g]) init_state) \<noteq> None
    \<and> window_metalness (window (run (pre @ [ModelLoaded g]) init_state)) = round64 (3 / 10)
    \<and> window_roughness (window (run (pre @ [ModelLoaded g]) init_state)) = round64 (8 / 10)
    \<and> length (mesh_materials (run (pre @ [ModelLoaded g]) init_state)) =
        length (materials (root (gltf_scene g)))
    \<and> (\<forall>m \<in> set (mesh_materials (run (pre @ [ModelLoaded g]) init_state)).
          metalness m = window_metalness (window (run (pre @ [ModelLoaded g]) init_state))
          \<and> roughness m = window_roughness (window (run (pre @ [ModelLoaded g]) init_state)))"
proof -
  define s where "s = run pre init_state"
  have w: "window s = window init_state" and p: "model_pending s"
    using env_events_frame[OF assms, of init_state] by (simp_all add: s_def init_state_def)
  have r: "run (pre @ [ModelLoaded g]) init_state = gltf_onLoad g (s\<lparr>model_pending := False\<rparr>)"
    by (simp add: run_append s_def[symmetric] p)
  have w': "window (gltf_onLoad g (s\<lparr>model_pending := False\<rparr>)) = window init_state"
    by (simp add: gltf_onLoad_def Let_def w)
  have d: "rubberDuck (gltf_onLoad g (s\<lparr>model_pending := False\<rparr>)) \<noteq> None"
    by (simp add: gltf_onLoad_def Let_def)
  show ?thesis
    unfolding r using d
    by (simp add: w' mesh_materials_gltf_onLoad w) (simp add: init_state_def)
qed

theorem load_materials_match_parameters_witness:
  "is_env_event (EnvFailed ''offline'')
   \<and> map metalness (mesh_materials (run ([EnvFailed ''offline''] @ [ModelLoaded sample_gltf]) init_state)) =
       [round64 (3 / 10), round64 (3 / 10)]
   \<and> map roughness (mesh_materials (run ([EnvFailed ''offline''] @ [ModelLoaded sample_gltf]) init_state)) =
       [round64 (8 / 10), round64 (8 / 10)]"
proof -
  have h: "\<forall>e \<in> set [EnvFailed ''offline'']. is_env_event e" by simp
  have l: "length (materials (root (gltf_scene sample_gltf))) = 2"
    by (simp add: sample_gltf_def gltf_root_def sample_tree_def)
  from load_materials_match_parameters [OF h, of sample_gltf] l
  obtain a b where ab: "mesh_materials (run ([EnvFailed ''offline''] @ [ModelLoaded sample_gltf]) init_state) = [a, b]"
    by (auto simp: length_Suc_conv numeral_2_eq_2)
  with load_materials_match_parameters [OF h, of sample_gltf] h show ?thesis
    by simp
qed

end
